theory Spec2Isabelle
  imports Main
begin

section \<open>Python values used by \<open>claude-api.py\<close>\<close>

text \<open>
  A Python \<open>str\<close> is a sequence of Unicode code points, so its length and its slices
  count code points. The check mark of the success messages is U+2705 (9989) and the
  cross mark of the failure marker is U+274C (10060); everything else in the script is
  ASCII and is written as a literal through \<open>ascii\<close>.
\<close>

type_synonym str = "nat list"

definition ascii :: "string \<Rightarrow> str" where
  "ascii s = map of_char s"

definition unlines :: "string list \<Rightarrow> string" where
  "unlines ls = concat (map (\<lambda>l. l @ ''\<newline>'') ls)"

definition check_mark :: str where
  "check_mark = [9989]"

definition cross_mark :: str where
  "cross_mark = [10060]"

text \<open>
  What \<open>json.load\<close> returns: \<open>None\<close>, a bool, an int, a float (mantissa and binary
  exponent; no operation of the script inspects a number), a str, a list, or a dict. A
  dict is an association list read with \<open>map_of\<close>.
\<close>

datatype json =
    JNull
  | JBool bool
  | JInt int
  | JFloat int int
  | JStr str
  | JArr "json list"
  | JObj "(str \<times> json) list"

text \<open>
  The exceptions the script can meet, each with the text \<open>str(e)\<close> gives. Those raised
  by the interpreter carry CPython's wording.
\<close>

datatype py_error =
    ValueError str
  | TypeError str
  | AttributeError str
  | IndexError str
  | KeyError str
  | OSError str
  | JSONDecodeError str
  | UnicodeEncodeError str
  | APIError str

fun str_of_error :: "py_error \<Rightarrow> str" where
  "str_of_error (ValueError m) = m"
| "str_of_error (TypeError m) = m"
| "str_of_error (AttributeError m) = m"
| "str_of_error (IndexError m) = m"
| "str_of_error (KeyError m) = m"
| "str_of_error (OSError m) = m"
| "str_of_error (JSONDecodeError m) = m"
| "str_of_error (UnicodeEncodeError m) = m"
| "str_of_error (APIError m) = m"

fun type_name :: "json \<Rightarrow> string" where
  "type_name JNull = ''NoneType''"
| "type_name (JBool b) = ''bool''"
| "type_name (JInt i) = ''int''"
| "type_name (JFloat m e) = ''float''"
| "type_name (JStr s) = ''str''"
| "type_name (JArr xs) = ''list''"
| "type_name (JObj kvs) = ''dict''"

definition quoted_type :: "json \<Rightarrow> string" where
  "quoted_type v = [CHR 39] @ type_name v @ [CHR 39]"

text \<open>\<open>k in s\<close> on two strings: \<open>k\<close> occurs in \<open>s\<close> as a substring.\<close>

fun is_substr :: "str \<Rightarrow> str \<Rightarrow> bool" where
  "is_substr k [] = (k = [])"
| "is_substr k (c # s) = (take (length k) (c # s) = k \<or> is_substr k s)"

text \<open>
  \<open>key in v\<close> for a str \<open>key\<close>: key membership on a dict, element membership on a list,
  substring on a str, \<open>TypeError\<close> on anything else.
\<close>

fun contains :: "str \<Rightarrow> json \<Rightarrow> py_error + bool" where
  "contains k (JObj kvs) = Inr (map_of kvs k \<noteq> None)"
| "contains k (JArr xs) = Inr (JStr k \<in> set xs)"
| "contains k (JStr s) = Inr (is_substr k s)"
| "contains k v =
     Inl (TypeError (ascii (''argument of type '' @ quoted_type v @ '' is not iterable'')))"

text \<open>\<open>v.get(k, d)\<close>: only a dict has the method.\<close>

fun dict_get :: "json \<Rightarrow> str \<Rightarrow> json \<Rightarrow> py_error + json" where
  "dict_get (JObj kvs) k d = Inr (case map_of kvs k of None \<Rightarrow> d | Some v \<Rightarrow> v)"
| "dict_get v k d =
     Inl (AttributeError (ascii (quoted_type v @ '' object has no attribute '' @ [CHR 39] @ ''get'' @ [CHR 39])))"

text \<open>
  \<open>for x in v\<close>: the elements of a list, the keys of a dict, the one-character strings
  of a str; anything else is not iterable.
\<close>

fun iter :: "json \<Rightarrow> py_error + json list" where
  "iter (JArr xs) = Inr xs"
| "iter (JObj kvs) = Inr (map JStr (remdups (map fst kvs)))"
| "iter (JStr s) = Inr (map (\<lambda>c. JStr [c]) s)"
| "iter v = Inl (TypeError (ascii (quoted_type v @ '' object is not iterable'')))"

text \<open>\<open>v[0]\<close>. The keys of a parsed JSON object are strings, so \<open>0\<close> is never one.\<close>

fun subscript0 :: "json \<Rightarrow> py_error + json" where
  "subscript0 (JArr []) = Inl (IndexError (ascii ''list index out of range''))"
| "subscript0 (JArr (x # xs)) = Inr x"
| "subscript0 (JStr []) = Inl (IndexError (ascii ''string index out of range''))"
| "subscript0 (JStr (c # s)) = Inr (JStr [c])"
| "subscript0 (JObj kvs) = Inl (KeyError (ascii ''0''))"
| "subscript0 v = Inl (TypeError (ascii (quoted_type v @ '' object is not subscriptable'')))"

section \<open>The assistant and the remote service\<close>

text \<open>
  The object built by \<open>ClaudeAssistant.__init__\<close>. Its \<open>client\<close> field wraps the key and
  is represented by the service function handed to each operation.
\<close>

record assistant =
  api_key :: str
  model :: str

text \<open>
  One call of \<open>client.messages.create\<close>: the model, \<open>max_tokens\<close> and the content of the
  single user message.
\<close>

record request =
  req_model :: str
  req_max_tokens :: nat
  req_content :: str

text \<open>
  The remote service, a parameter of the model: for a request it raises, or returns the
  texts of the content blocks of the response.
\<close>

type_synonym service = "request \<Rightarrow> py_error + str list"

text \<open>
  \<open>ClaudeAssistant.__init__\<close>: \<open>api_key or os.environ.get('CLAUDE_API_KEY')\<close>, then the
  check \<open>if not self.api_key\<close>. \<open>given\<close> is Python's truth test on an optional string:
  \<open>None\<close> and the empty string are false.
\<close>

fun given :: "str option \<Rightarrow> str option" where
  "given None = None"
| "given (Some []) = None"
| "given (Some (c # s)) = Some (c # s)"

definition assistant_init :: "str option \<Rightarrow> str option \<Rightarrow> py_error + assistant" where
  "assistant_init key_arg env_key =
     (case given (case given key_arg of Some k \<Rightarrow> Some k | None \<Rightarrow> env_key) of
        None \<Rightarrow> Inl (ValueError (ascii ''CLAUDE_API_KEY environment variable not set''))
      | Some k \<Rightarrow> Inr \<lparr>api_key = k, model = ascii ''claude-3-5-sonnet-20241022''\<rparr>)"

text \<open>
  \<open>self.client.messages.create(...)\<close> followed by \<open>response.content[0].text\<close>. The second
  component is the trace of requests sent over the network.
\<close>

definition call_service :: "service \<Rightarrow> request \<Rightarrow> (py_error + str) \<times> request list" where
  "call_service svc req =
     (case svc req of
        Inl e \<Rightarrow> (Inl e, [req])
      | Inr [] \<Rightarrow> (Inl (IndexError (ascii ''list index out of range'')), [req])
      | Inr (t # ts) \<Rightarrow> (Inr t, [req]))"

section \<open>\<open>generate_spec\<close>\<close>

definition spec_intro :: str where
  "spec_intro = ascii (unlines
     [''You are a technical architect for Ora Admin Portal (Next.js 15 + TypeScript + Firebase).'',
      '''',
      ''A feature request has been filed:'',
      ''''] @ ''**Title**: '')"

definition spec_details :: str where
  "spec_details = ascii (unlines
     ['''',
      '''',
      ''**Details**:''])"

definition spec_context :: str where
  "spec_context = ascii (unlines
     ['''',
      '''',
      ''**Codebase Context**:''])"

definition spec_outro :: str where
  "spec_outro = ascii (unlines
     ['''',
      '''',
      ''Generate a detailed technical specification including:'',
      '''',
      ''1. **Overview**: High-level summary'',
      ''2. **Architecture & Design**: Components, data flow, patterns'',
      ''3. **API Contracts**: Endpoints, request/response schemas (TypeScript)'',
      ''4. **Data Models**: Firestore collections/documents with TypeScript interfaces'',
      ''5. **Security Considerations**: Firestore rules, permissions, validation'',
      ''6. **Performance Considerations**: Optimizations, caching, scaling'',
      ''7. **Testing Strategy**: Unit tests, integration tests, E2E scenarios'',
      ''8. **Implementation Tasks**: Concrete checklist for developers'',
      '''',
      ''Format in Markdown with TypeScript code blocks for schemas.'',
      ''Be specific and actionable. Reference existing patterns in the codebase.''])"

text \<open>The slice \<open>codebase_context[:4000]\<close>: the first 4000 code points, or all of them.\<close>

definition context_slice :: "str \<Rightarrow> str" where
  "context_slice codebase_context = take 4000 codebase_context"

text \<open>The f-string of \<open>generate_spec\<close>.\<close>

definition spec_prompt :: "str \<Rightarrow> str \<Rightarrow> str \<Rightarrow> str" where
  "spec_prompt issue_title issue_body codebase_context =
     spec_intro @ issue_title @ spec_details @ issue_body @ spec_context
       @ context_slice codebase_context @ spec_outro"

definition generate_spec ::
  "assistant \<Rightarrow> service \<Rightarrow> str \<Rightarrow> str \<Rightarrow> str \<Rightarrow> (py_error + str) \<times> request list" where
  "generate_spec self svc issue_title issue_body codebase_context =
     call_service svc
       \<lparr>req_model = model self, req_max_tokens = 4096,
        req_content = spec_prompt issue_title issue_body codebase_context\<rparr>"

section \<open>\<open>analyze_test_failures\<close>\<close>

text \<open>
  One entry of the list \<open>failures\<close>: the dict with the keys \<open>file\<close>, \<open>test\<close> and \<open>error\<close>.
  The values are whatever the report holds at those places.
\<close>

record failure =
  failure_file :: json
  failure_test :: json
  failure_error :: json

text \<open>
  The body of the Vitest loop for one \<open>test\<close>: \<open>None\<close> when nothing is appended. The dict
  literal evaluates its three values in order; only the second can raise once
  \<open>test.get('status')\<close> has succeeded.
\<close>

definition vitest_failure :: "json \<Rightarrow> py_error + failure option" where
  "vitest_failure t =
     (case dict_get t (ascii ''status'') JNull of
        Inl e \<Rightarrow> Inl e
      | Inr status \<Rightarrow>
          if status = JStr (ascii ''failed'') then
            (case dict_get t (ascii ''name'') JNull of
               Inl e \<Rightarrow> Inl e
             | Inr name \<Rightarrow>
                 (case dict_get t (ascii ''assertionResults'') (JArr [JObj []]) of
                    Inl e \<Rightarrow> Inl e
                  | Inr results \<Rightarrow>
                      (case subscript0 results of
                         Inl e \<Rightarrow> Inl e
                       | Inr first \<Rightarrow>
                           (case dict_get first (ascii ''title'') (JStr (ascii ''Unknown'')) of
                              Inl e \<Rightarrow> Inl e
                            | Inr title \<Rightarrow>
                                (case dict_get t (ascii ''message'') (JStr (ascii ''Unknown error'')) of
                                   Inl e \<Rightarrow> Inl e
                                 | Inr message \<Rightarrow>
                                     Inr (Some \<lparr>failure_file = name, failure_test = title,
                                                failure_error = message\<rparr>))))))
          else Inr None)"

text \<open>
  The body of the inner Playwright loop for one spec \<open>t\<close> of \<open>suite\<close>.
  \<open>test.get('ok') is False\<close> holds for the value \<open>False\<close> alone.
\<close>

definition playwright_failure :: "json \<Rightarrow> json \<Rightarrow> py_error + failure option" where
  "playwright_failure suite t =
     (case dict_get t (ascii ''ok'') JNull of
        Inl e \<Rightarrow> Inl e
      | Inr ok \<Rightarrow>
          if ok = JBool False then
            (case dict_get suite (ascii ''file'') JNull of
               Inl e \<Rightarrow> Inl e
             | Inr file \<Rightarrow>
                 (case dict_get t (ascii ''title'') JNull of
                    Inl e \<Rightarrow> Inl e
                  | Inr title \<Rightarrow>
                      (case dict_get t (ascii ''error'') (JObj []) of
                         Inl e \<Rightarrow> Inl e
                       | Inr err \<Rightarrow>
                           (case dict_get err (ascii ''message'') (JStr (ascii ''Unknown error'')) of
                              Inl e \<Rightarrow> Inl e
                            | Inr message \<Rightarrow>
                                Inr (Some \<lparr>failure_file = file, failure_test = title,
                                           failure_error = message\<rparr>)))))
          else Inr None)"

text \<open>
  A \<open>for\<close> loop appending to \<open>failures\<close>: the list so far is the accumulator, and an
  exception in the body ends the loop and loses the list.
\<close>

fun collect ::
  "(json \<Rightarrow> py_error + failure option) \<Rightarrow> json list \<Rightarrow> failure list \<Rightarrow> py_error + failure list" where
  "collect body [] failures = Inr failures"
| "collect body (t # ts) failures =
     (case body t of
        Inl e \<Rightarrow> Inl e
      | Inr None \<Rightarrow> collect body ts failures
      | Inr (Some r) \<Rightarrow> collect body ts (failures @ [r]))"

text \<open>The outer Playwright loop: \<open>for suite in ...: for test in suite.get('specs', [])\<close>.\<close>

fun suites_loop :: "json list \<Rightarrow> failure list \<Rightarrow> py_error + failure list" where
  "suites_loop [] failures = Inr failures"
| "suites_loop (suite # suites) failures =
     (case dict_get suite (ascii ''specs'') (JArr []) of
        Inl e \<Rightarrow> Inl e
      | Inr specs \<Rightarrow>
          (case iter specs of
             Inl e \<Rightarrow> Inl e
           | Inr ts \<Rightarrow>
               (case collect (playwright_failure suite) ts failures of
                  Inl e \<Rightarrow> Inl e
                | Inr failures' \<Rightarrow> suites_loop suites failures')))"

text \<open>
  Lines 89 to 109 of the script: the list \<open>failures\<close> when the \<open>if\<close>/\<open>elif\<close> is left, or
  the exception raised on the way.
\<close>

definition extract_failures :: "json \<Rightarrow> py_error + failure list" where
  "extract_failures test_report =
     (case contains (ascii ''testResults'') test_report of
        Inl e \<Rightarrow> Inl e
      | Inr True \<Rightarrow>
          (case dict_get test_report (ascii ''testResults'') (JArr []) of
             Inl e \<Rightarrow> Inl e
           | Inr results \<Rightarrow>
               (case iter results of
                  Inl e \<Rightarrow> Inl e
                | Inr ts \<Rightarrow> collect vitest_failure ts []))
      | Inr False \<Rightarrow>
          (case contains (ascii ''suites'') test_report of
             Inl e \<Rightarrow> Inl e
           | Inr True \<Rightarrow>
               (case dict_get test_report (ascii ''suites'') (JArr []) of
                  Inl e \<Rightarrow> Inl e
                | Inr suites \<Rightarrow>
                    (case iter suites of
                       Inl e \<Rightarrow> Inl e
                     | Inr ss \<Rightarrow> suites_loop ss []))
           | Inr False \<Rightarrow> Inr []))"

definition no_failures_message :: str where
  "no_failures_message = check_mark @ ascii '' No test failures detected''"

definition analysis_intro :: str where
  "analysis_intro = ascii (unlines
     [''You are debugging test failures in Ora Admin Portal (Next.js 15 + TypeScript + Firebase).'',
      '''',
      ''**Test Failures**:'',
      ''```json''])"

definition analysis_outro :: str where
  "analysis_outro = ascii (unlines
     ['''',
      ''```'',
      '''',
      ''For each failure, provide:'',
      '''',
      ''1. **Root Cause**: What's likely causing this failure?'',
      ''2. **Suggested Fix**: Specific code changes to resolve it'',
      ''3. **Prevention**: How to prevent similar issues in the future'',
      '''',
      ''Format as Markdown with code blocks for suggested fixes.'',
      ''Be concise but specific. Reference TypeScript/React best practices.''])"

text \<open>
  \<open>json.dumps(failures, indent=2)\<close> belongs to the standard library and is a parameter
  \<open>dumps\<close> of the operation.
\<close>

definition analysis_prompt :: "(failure list \<Rightarrow> str) \<Rightarrow> failure list \<Rightarrow> str" where
  "analysis_prompt dumps failures = analysis_intro @ dumps failures @ analysis_outro"

definition analyze_test_failures ::
  "assistant \<Rightarrow> service \<Rightarrow> (failure list \<Rightarrow> str) \<Rightarrow> json \<Rightarrow> (py_error + str) \<times> request list" where
  "analyze_test_failures self svc dumps test_report =
     (case extract_failures test_report of
        Inl e \<Rightarrow> (Inl e, [])
      | Inr [] \<Rightarrow> (Inr no_failures_message, [])
      | Inr (f # fs) \<Rightarrow>
          call_service svc
            \<lparr>req_model = model self, req_max_tokens = 2048,
             req_content = analysis_prompt dumps (f # fs)\<rparr>)"

section \<open>\<open>review_pr\<close>\<close>

definition review_intro :: str where
  "review_intro = ascii (unlines
     [''You are reviewing a Pull Request for Ora Admin Portal (Next.js 15 + TypeScript + Firebase).'',
      '''',
      ''**PR Description**:''])"

definition review_changes :: str where
  "review_changes = ascii (unlines
     ['''',
      '''',
      ''**Code Changes**:'',
      ''```diff''])"

definition review_outro :: str where
  "review_outro = ascii (unlines
     ['''',
      ''```'',
      '''',
      ''Review the code and provide:'',
      '''',
      ''1. **Summary**: High-level assessment'',
      ''2. **Potential Issues**: Bugs, security concerns, performance problems'',
      ''3. **Suggestions**: Improvements for code quality, readability, maintainability'',
      ''4. **Security**: Any security considerations'',
      ''5. **Testing**: Are there sufficient tests?'',
      '''',
      ''Format as Markdown. Be constructive and specific.'',
      ''Focus on:'',
      ''- TypeScript type safety'',
      ''- React best practices'',
      ''- Firebase security (Firestore rules, sensitive data)'',
      ''- Error handling'',
      ''- Performance implications''])"

text \<open>The slice \<open>diff[:8000]\<close>.\<close>

definition diff_slice :: "str \<Rightarrow> str" where
  "diff_slice diff = take 8000 diff"

text \<open>The f-string of \<open>review_pr\<close>.\<close>

definition review_prompt :: "str \<Rightarrow> str \<Rightarrow> str" where
  "review_prompt diff pr_description =
     review_intro @ pr_description @ review_changes @ diff_slice diff @ review_outro"

definition review_pr ::
  "assistant \<Rightarrow> service \<Rightarrow> str \<Rightarrow> str \<Rightarrow> (py_error + str) \<times> request list" where
  "review_pr self svc diff pr_description =
     call_service svc
       \<lparr>req_model = model self, req_max_tokens = 2048,
        req_content = review_prompt diff pr_description\<rparr>"

section \<open>\<open>main\<close>\<close>

datatype command = Spec | TestAnalysis | PrReview

text \<open>
  The namespace \<open>argparse\<close> returns. An option that was not passed is \<open>None\<close>; a command
  outside the three choices never reaches \<open>main\<close>'s body.
\<close>

record args =
  command :: command
  issue_title :: "str option"
  issue_body :: "str option"
  codebase_context :: "str option"
  test_report :: "str option"
  diff :: "str option"
  pr_description :: "str option"
  output_arg :: "str option"

text \<open>
  What a run finds outside the process: the value of \<open>CLAUDE_API_KEY\<close>, what opening a
  path for reading and reading it gives, whether opening a path for writing fails, the
  standard library's JSON parser and printer, and the remote service.
\<close>

record world =
  environ_key :: "str option"
  files :: "str \<Rightarrow> py_error + str"
  open_write :: "str \<Rightarrow> py_error option"
  json_loads :: "str \<Rightarrow> py_error + json"
  json_dumps :: "failure list \<Rightarrow> str"
  remote :: service

text \<open>
  What a run leaves behind: the texts printed to each stream (one entry per \<open>print\<close>),
  the exit status (0 when \<open>main\<close> returns), the requests sent, and the files.
\<close>

record outcome =
  stdout :: "str list"
  stderr :: "str list"
  exit_code :: nat
  requests :: "request list"
  files_after :: "str \<Rightarrow> py_error + str"

text \<open>The \<open>except Exception as e\<close> clause of \<open>main\<close>.\<close>

definition handler :: "world \<Rightarrow> request list \<Rightarrow> py_error \<Rightarrow> outcome" where
  "handler w reqs e =
     \<lparr>stdout = [], stderr = [cross_mark @ ascii '' Error: '' @ str_of_error e],
      exit_code = 1, requests = reqs, files_after = files w\<rparr>"

text \<open>
  \<open>print(msg, file=sys.stderr); sys.exit(1)\<close> inside the \<open>try\<close>: \<open>SystemExit\<close> is not an
  \<open>Exception\<close>, so the \<open>except\<close> clause does not see it. The three guards run before any
  request is built.
\<close>

definition usage_exit :: "world \<Rightarrow> string \<Rightarrow> outcome" where
  "usage_exit w msg =
     \<lparr>stdout = [], stderr = [ascii msg], exit_code = 1, requests = [], files_after = files w\<rparr>"

definition spec_usage :: string where
  "spec_usage = ''Error: --issue-title and --issue-body required for spec generation''"

definition test_analysis_usage :: string where
  "test_analysis_usage = ''Error: --test-report required for test analysis''"

definition pr_review_usage :: string where
  "pr_review_usage = ''Error: --diff and --pr-description required for PR review''"

text \<open>
  Writing a text to a file opened with \<open>encoding='utf-8'\<close>: the codec is strict, so a
  text holding a surrogate code point (U+D800 to U+DFFF) raises \<open>UnicodeEncodeError\<close>
  and nothing reaches the file. The message names the first surrogate and its position,
  or the positions of the first run of surrogates when the run is longer than one.
\<close>

definition is_surrogate :: "nat \<Rightarrow> bool" where
  "is_surrogate c = (55296 \<le> c \<and> c \<le> 57343)"

fun decimal :: "nat \<Rightarrow> str" where
  "decimal n = (if n < 10 then [48 + n] else decimal (n div 10) @ [48 + n mod 10])"

definition hex_digit :: "nat \<Rightarrow> nat" where
  "hex_digit d = (if d < 10 then 48 + d else 87 + d)"

definition hex4 :: "nat \<Rightarrow> str" where
  "hex4 c = map hex_digit [c div 4096 mod 16, c div 256 mod 16, c div 16 mod 16, c mod 16]"

definition encode_error_text :: "str \<Rightarrow> str" where
  "encode_error_text s =
     (let start = length (takeWhile (\<lambda>c. \<not> is_surrogate c) s);
          run = takeWhile is_surrogate (drop start s)
      in [39] @ ascii ''utf-8'' @ [39] @ ascii '' codec can't encode ''
         @ (if length run = 1
            then ascii ''character '' @ [39, 92] @ ascii ''u'' @ hex4 (hd run) @ [39]
                 @ ascii '' in position '' @ decimal start
            else ascii ''characters in position '' @ decimal start @ ascii ''-''
                 @ decimal (start + length run - 1))
         @ ascii '': surrogates not allowed'')"

definition utf8_write_error :: "str \<Rightarrow> py_error option" where
  "utf8_write_error s =
     (if list_ex is_surrogate s then Some (UnicodeEncodeError (encode_error_text s)) else None)"

text \<open>
  The block under \<open># Output result\<close>. \<open>open(args.output, 'w', encoding='utf-8')\<close> may
  raise, and then nothing has happened to the file; once it has succeeded the file is
  empty, and \<open>f.write(result)\<close> either raises, leaving it empty, or fills it. The
  exception of either step reaches the \<open>except\<close> clause. Standard output is taken to
  accept every text: its codec and error handler belong to the environment the script
  runs in, not to the script.
\<close>

definition write_output :: "world \<Rightarrow> args \<Rightarrow> request list \<Rightarrow> str \<Rightarrow> outcome" where
  "write_output w a reqs result =
     (case given (output_arg a) of
        Some path \<Rightarrow>
          (case open_write w path of
             Some e \<Rightarrow> handler w reqs e
           | None \<Rightarrow>
               (case utf8_write_error result of
                  Some e \<Rightarrow> (handler w reqs e)\<lparr>files_after := (files w)(path := Inr [])\<rparr>
                | None \<Rightarrow>
                    \<lparr>stdout = [check_mark @ ascii '' Output written to '' @ path], stderr = [],
                     exit_code = 0, requests = reqs,
                     files_after = (files w)(path := Inr result)\<rparr>))
      | None \<Rightarrow>
          \<lparr>stdout = [result], stderr = [], exit_code = 0, requests = reqs,
           files_after = files w\<rparr>)"

text \<open>What follows a call of one of the three operations.\<close>

definition finish :: "world \<Rightarrow> args \<Rightarrow> (py_error + str) \<times> request list \<Rightarrow> outcome" where
  "finish w a r =
     (case r of
        (Inl e, reqs) \<Rightarrow> handler w reqs e
      | (Inr result, reqs) \<Rightarrow> write_output w a reqs result)"

text \<open>
  \<open>codebase_context = ""\<close>, replaced by the content of the file when the option is
  given.
\<close>

definition read_context :: "world \<Rightarrow> args \<Rightarrow> py_error + str" where
  "read_context w a =
     (case given (codebase_context a) of
        None \<Rightarrow> Inr []
      | Some path \<Rightarrow> files w path)"

definition main :: "world \<Rightarrow> args \<Rightarrow> outcome" where
  "main w a =
     (case assistant_init None (environ_key w) of
        Inl e \<Rightarrow> handler w [] e
      | Inr assistant \<Rightarrow>
          (case command a of
             Spec \<Rightarrow>
               (case given (issue_title a) of
                  None \<Rightarrow> usage_exit w spec_usage
                | Some title \<Rightarrow>
                    (case given (issue_body a) of
                       None \<Rightarrow> usage_exit w spec_usage
                     | Some body \<Rightarrow>
                         (case read_context w a of
                            Inl e \<Rightarrow> handler w [] e
                          | Inr context \<Rightarrow>
                              finish w a (generate_spec assistant (remote w) title body context))))
           | TestAnalysis \<Rightarrow>
               (case given (test_report a) of
                  None \<Rightarrow> usage_exit w test_analysis_usage
                | Some path \<Rightarrow>
                    (case files w path of
                       Inl e \<Rightarrow> handler w [] e
                     | Inr text \<Rightarrow>
                         (case json_loads w text of
                            Inl e \<Rightarrow> handler w [] e
                          | Inr report \<Rightarrow>
                              finish w a
                                (analyze_test_failures assistant (remote w) (json_dumps w) report))))
           | PrReview \<Rightarrow>
               (case given (diff a) of
                  None \<Rightarrow> usage_exit w pr_review_usage
                | Some path \<Rightarrow>
                    (case given (pr_description a) of
                       None \<Rightarrow> usage_exit w pr_review_usage
                     | Some description \<Rightarrow>
                         (case files w path of
                            Inl e \<Rightarrow> handler w [] e
                          | Inr text \<Rightarrow>
                              finish w a (review_pr assistant (remote w) text description))))))"

section \<open>The report shapes and the records the specification describes\<close>

text \<open>
  The vocabulary of the properties below: a field of a JSON object, a failing entry of
  the result-list shape (\<open>status == "failed"\<close>), a failing spec of the suite/spec shape
  (\<open>ok\<close> present and \<open>false\<close>), and the \<open>{file, test, error}\<close> record of each.
  \<open>usable_results\<close> says that \<open>assertionResults\<close> of an entry is absent or a non-empty
  list starting with an object; \<open>wf_spec\<close> that the \<open>error\<close> of a failing spec is absent
  or an object.
\<close>

fun is_dict :: "json \<Rightarrow> bool" where
  "is_dict (JObj kvs) = True"
| "is_dict v = False"

fun lookup :: "json \<Rightarrow> string \<Rightarrow> json option" where
  "lookup (JObj kvs) k = map_of kvs (ascii k)"
| "lookup v k = None"

definition entry_failed :: "json \<Rightarrow> bool" where
  "entry_failed t = (lookup t ''status'' = Some (JStr (ascii ''failed'')))"

definition first_title :: "json \<Rightarrow> json" where
  "first_title t =
     (case lookup t ''assertionResults'' of
        Some (JArr (first # rest)) \<Rightarrow>
          (case lookup first ''title'' of None \<Rightarrow> JStr (ascii ''Unknown'') | Some v \<Rightarrow> v)
      | _ \<Rightarrow> JStr (ascii ''Unknown''))"

definition entry_record :: "json \<Rightarrow> failure" where
  "entry_record t =
     \<lparr>failure_file = (case lookup t ''name'' of None \<Rightarrow> JNull | Some v \<Rightarrow> v),
      failure_test = first_title t,
      failure_error = (case lookup t ''message'' of None \<Rightarrow> JStr (ascii ''Unknown error'') | Some v \<Rightarrow> v)\<rparr>"

definition usable_results :: "json \<Rightarrow> bool" where
  "usable_results t =
     (case lookup t ''assertionResults'' of
        None \<Rightarrow> True
      | Some (JArr (first # rest)) \<Rightarrow> is_dict first
      | Some v \<Rightarrow> False)"

definition wf_entry :: "json \<Rightarrow> bool" where
  "wf_entry t = (is_dict t \<and> (entry_failed t \<longrightarrow> usable_results t))"

definition spec_failed :: "json \<Rightarrow> bool" where
  "spec_failed t = (lookup t ''ok'' = Some (JBool False))"

definition spec_record :: "json \<Rightarrow> json \<Rightarrow> failure" where
  "spec_record suite t =
     \<lparr>failure_file = (case lookup suite ''file'' of None \<Rightarrow> JNull | Some v \<Rightarrow> v),
      failure_test = (case lookup t ''title'' of None \<Rightarrow> JNull | Some v \<Rightarrow> v),
      failure_error =
        (case lookup t ''error'' of
           None \<Rightarrow> JStr (ascii ''Unknown error'')
         | Some err \<Rightarrow>
             (case lookup err ''message'' of
                None \<Rightarrow> JStr (ascii ''Unknown error'')
              | Some m \<Rightarrow> m))\<rparr>"

definition wf_spec :: "json \<Rightarrow> bool" where
  "wf_spec t =
     (is_dict t \<and>
      (spec_failed t \<longrightarrow> (case lookup t ''error'' of None \<Rightarrow> True | Some err \<Rightarrow> is_dict err)))"

definition suite_specs :: "json \<Rightarrow> json list" where
  "suite_specs suite =
     (case lookup suite ''specs'' of Some (JArr ts) \<Rightarrow> ts | _ \<Rightarrow> [])"

definition wf_suite :: "json \<Rightarrow> bool" where
  "wf_suite suite =
     (is_dict suite \<and>
      (case lookup suite ''specs'' of
         None \<Rightarrow> True
       | Some (JArr ts) \<Rightarrow> list_all wf_spec ts
       | Some v \<Rightarrow> False))"

definition result_list :: "json \<Rightarrow> json list \<Rightarrow> bool" where
  "result_list report ts =
     (is_dict report \<and> lookup report ''testResults'' = Some (JArr ts) \<and> list_all is_dict ts)"

definition suite_list :: "json \<Rightarrow> json list \<Rightarrow> bool" where
  "suite_list report ss =
     (is_dict report \<and> lookup report ''testResults'' = None
      \<and> lookup report ''suites'' = Some (JArr ss) \<and> list_all wf_suite ss)"

definition suite_failures :: "json list \<Rightarrow> failure list" where
  "suite_failures ss =
     concat (map (\<lambda>suite. map (spec_record suite) (filter spec_failed (suite_specs suite))) ss)"

section \<open>The guards of \<open>main\<close> as functions of the options\<close>

text \<open>
  \<open>missing_input\<close> is the message of the guard that stops the selected subcommand, if
  one does; \<open>input_file\<close> is the path the subcommand then opens for reading. The error
  line of a missing key is \<open>key_error_line\<close>.
\<close>


fun no_container :: "json \<Rightarrow> bool" where
  "no_container JNull = True"
| "no_container (JBool b) = True"
| "no_container (JInt i) = True"
| "no_container (JFloat m e) = True"
| "no_container v = False"

definition missing_input :: "args \<Rightarrow> string option" where
  "missing_input a =
     (case command a of
        Spec \<Rightarrow>
          if given (issue_title a) = None \<or> given (issue_body a) = None
          then Some spec_usage else None
      | TestAnalysis \<Rightarrow>
          if given (test_report a) = None then Some test_analysis_usage else None
      | PrReview \<Rightarrow>
          if given (diff a) = None \<or> given (pr_description a) = None
          then Some pr_review_usage else None)"


definition key_error_line :: str where
  "key_error_line = cross_mark @ ascii '' Error: CLAUDE_API_KEY environment variable not set''"

section \<open>Example inputs\<close>

text \<open>
  Concrete services, worlds, options and reports. \<open>demo_files\<close> holds a report and a
  diff; \<open>failed_load_entry\<close> is what Vitest's JSON reporter writes for a test file that
  fails before any of its tests runs: \<open>status\<close> is \<open>failed\<close> and \<open>assertionResults\<close> is
  empty.
\<close>

definition stub_service :: "str \<Rightarrow> service" where
  "stub_service reply = (\<lambda>req. Inr [reply])"

definition failing_service :: service where
  "failing_service = (\<lambda>req. Inl (APIError (ascii ''Connection error.'')))"

definition demo_assistant :: assistant where
  "demo_assistant = \<lparr>api_key = ascii ''sk-test'', model = ascii ''claude-3-5-sonnet-20241022''\<rparr>"

definition demo_dumps :: "failure list \<Rightarrow> str" where
  "demo_dumps fs = ascii ''[]''"

definition demo_files :: "str \<Rightarrow> py_error + str" where
  "demo_files path =
     (if path = ascii ''report.json'' then Inr (ascii ''report'')
      else if path = ascii ''pr.diff'' then Inr (ascii ''+x'')
      else Inl (OSError (ascii ''[Errno 2] No such file or directory: '' @ [39] @ path @ [39])))"

definition demo_world :: "str option \<Rightarrow> json \<Rightarrow> service \<Rightarrow> world" where
  "demo_world key report svc =
     \<lparr>environ_key = key, files = demo_files, open_write = (\<lambda>path. None),
      json_loads = (\<lambda>text. Inr report), json_dumps = demo_dumps, remote = svc\<rparr>"

definition empty_results :: json where
  "empty_results = JObj [(ascii ''testResults'', JArr [])]"

definition keyed_world :: "service \<Rightarrow> world" where
  "keyed_world svc = demo_world (Some (ascii ''sk-test'')) empty_results svc"


definition no_options :: "command \<Rightarrow> args" where
  "no_options c =
     \<lparr>command = c, issue_title = None, issue_body = None, codebase_context = None,
      test_report = None, diff = None, pr_description = None, output_arg = None\<rparr>"

definition spec_args :: args where
  "spec_args =
     (no_options Spec)\<lparr>issue_title := Some (ascii ''Export''), issue_body := Some (ascii ''Add CSV export'')\<rparr>"

definition review_args :: args where
  "review_args =
     (no_options PrReview)\<lparr>diff := Some (ascii ''pr.diff''), pr_description := Some (ascii ''Fix'')\<rparr>"

definition passed_entry :: json where
  "passed_entry = JObj [(ascii ''name'', JStr (ascii ''a.test.ts'')), (ascii ''status'', JStr (ascii ''passed''))]"

definition failed_entry :: json where
  "failed_entry =
     JObj [(ascii ''assertionResults'', JArr [JObj [(ascii ''title'', JStr (ascii ''adds''))]]),
           (ascii ''status'', JStr (ascii ''failed'')),
           (ascii ''message'', JStr (ascii ''expected 2 to be 3'')),
           (ascii ''name'', JStr (ascii ''src/sum.test.ts''))]"

definition failed_load_entry :: json where
  "failed_load_entry =
     JObj [(ascii ''assertionResults'', JArr []),
           (ascii ''status'', JStr (ascii ''failed'')),
           (ascii ''message'', JStr (ascii ''Failed to resolve import''))  ,
           (ascii ''name'', JStr (ascii ''src/app.test.ts''))]"

definition failed_load_report :: json where
  "failed_load_report = JObj [(ascii ''testResults'', JArr [failed_load_entry])]"

definition passing_suites :: json where
  "passing_suites =
     JObj [(ascii ''suites'', JArr [JObj [(ascii ''file'', JStr (ascii ''e2e.spec.ts'')),
       (ascii ''specs'', JArr [JObj [(ascii ''title'', JStr (ascii ''logs in'')), (ascii ''ok'', JBool True)]])]])]"

definition failing_spec :: json where
  "failing_spec = JObj [(ascii ''title'', JStr (ascii ''logs in'')), (ascii ''ok'', JBool False)]"

definition failing_suite :: json where
  "failing_suite =
     JObj [(ascii ''file'', JStr (ascii ''e2e.spec.ts'')),
           (ascii ''specs'', JArr [JObj [(ascii ''title'', JStr (ascii ''loads'')), (ascii ''ok'', JInt 0)],
                                   failing_spec])]"

section \<open>The constructor\<close>

lemma assistant_init_no_key:
  "given key_arg = None \<Longrightarrow> given env_key = None \<Longrightarrow>
   assistant_init key_arg env_key
     = Inl (ValueError (ascii ''CLAUDE_API_KEY environment variable not set''))"
  by (simp add: assistant_init_def)

lemma assistant_init_key:
  "given env_key = Some k \<Longrightarrow>
   assistant_init None env_key = Inr \<lparr>api_key = k, model = ascii ''claude-3-5-sonnet-20241022''\<rparr>"
  by (simp add: assistant_init_def)

lemma main_no_key:
  "given (environ_key w) = None \<Longrightarrow>
   main w a = handler w [] (ValueError (ascii ''CLAUDE_API_KEY environment variable not set''))"
  by (simp add: main_def assistant_init_no_key)

section \<open>Extraction of the Failure List\<close>

lemma is_dict_iff: "is_dict v \<longleftrightarrow> (\<exists>kvs. v = JObj kvs)"
  by (cases v) auto

lemma vitest_failure_wf:
  assumes "wf_entry t"
  shows "vitest_failure t = Inr (if entry_failed t then Some (entry_record t) else None)"
proof -
  from assms obtain kvs where t: "t = JObj kvs"
    by (auto simp: wf_entry_def is_dict_iff)
  show ?thesis
  proof (cases "entry_failed t")
    case False
    then show ?thesis
      by (auto simp: t vitest_failure_def entry_failed_def split: option.splits)
  next
    case True
    with assms have u: "usable_results t" by (simp add: wf_entry_def)
    from True have st: "map_of kvs (ascii ''status'') = Some (JStr (ascii ''failed''))"
      by (simp add: t entry_failed_def)
    show ?thesis
    proof (cases "map_of kvs (ascii ''assertionResults'')")
      case None
      then show ?thesis using True st
        by (simp add: t vitest_failure_def entry_record_def first_title_def)
    next
      case (Some v)
      with u obtain rest fk where v: "v = JArr (JObj fk # rest)"
        by (auto simp: usable_results_def t is_dict_iff split: json.splits list.splits)
      show ?thesis using True st Some
        by (simp add: t v vitest_failure_def entry_record_def first_title_def)
    qed
  qed
qed

lemma collect_vitest:
  "list_all wf_entry ts \<Longrightarrow>
   collect vitest_failure ts acc = Inr (acc @ map entry_record (filter entry_failed ts))"
  by (induction ts arbitrary: acc) (simp_all add: vitest_failure_wf)

lemma playwright_failure_wf:
  assumes "wf_spec t" and "is_dict suite"
  shows "playwright_failure suite t = Inr (if spec_failed t then Some (spec_record suite t) else None)"
proof -
  from assms obtain kvs sk where t: "t = JObj kvs" and s: "suite = JObj sk"
    by (auto simp: wf_spec_def is_dict_iff)
  show ?thesis
  proof (cases "spec_failed t")
    case False
    then show ?thesis
      by (auto simp: t playwright_failure_def spec_failed_def split: option.splits)
  next
    case True
    then have ok: "map_of kvs (ascii ''ok'') = Some (JBool False)"
      by (simp add: t spec_failed_def)
    show ?thesis
    proof (cases "map_of kvs (ascii ''error'')")
      case None
      then show ?thesis using True ok
        by (simp add: t s playwright_failure_def spec_record_def)
    next
      case (Some err)
      with assms True obtain ek where err: "err = JObj ek"
        by (auto simp: wf_spec_def t is_dict_iff)
      show ?thesis using True ok Some
        by (simp add: t s err playwright_failure_def spec_record_def)
    qed
  qed
qed

lemma collect_playwright:
  "list_all wf_spec ts \<Longrightarrow> is_dict suite \<Longrightarrow>
   collect (playwright_failure suite) ts acc
     = Inr (acc @ map (spec_record suite) (filter spec_failed ts))"
  by (induction ts arbitrary: acc) (simp_all add: playwright_failure_wf)

lemma suites_loop_wf:
  "list_all wf_suite ss \<Longrightarrow> suites_loop ss acc = Inr (acc @ suite_failures ss)"
proof (induction ss arbitrary: acc)
  case Nil
  then show ?case by (simp add: suite_failures_def)
next
  case (Cons s ss)
  then have wf: "wf_suite s" and rest: "list_all wf_suite ss" by simp_all
  from wf obtain sk where s: "s = JObj sk" by (auto simp: wf_suite_def is_dict_iff)
  have step: "\<exists>ts. dict_get s (ascii ''specs'') (JArr []) = Inr (JArr ts)
      \<and> suite_specs s = ts \<and> list_all wf_spec ts"
    using wf by (auto simp: s wf_suite_def suite_specs_def split: option.splits json.splits)
  then obtain ts where ts: "dict_get s (ascii ''specs'') (JArr []) = Inr (JArr ts)"
    "suite_specs s = ts" "list_all wf_spec ts" by blast
  have "is_dict s" by (simp add: s)
  with ts have c: "collect (playwright_failure s) ts acc
      = Inr (acc @ map (spec_record s) (filter spec_failed ts))"
    by (simp add: collect_playwright)
  have "suites_loop (s # ss) acc = suites_loop ss (acc @ map (spec_record s) (filter spec_failed ts))"
    using ts(1) c by simp
  also have "\<dots> = Inr ((acc @ map (spec_record s) (filter spec_failed ts)) @ suite_failures ss)"
    using Cons.IH[OF rest] by simp
  finally show ?case using ts(2) by (simp add: suite_failures_def)
qed

lemma extract_result_list:
  assumes "is_dict report" "lookup report ''testResults'' = Some (JArr ts)" "list_all wf_entry ts"
  shows "extract_failures report = Inr (map entry_record (filter entry_failed ts))"
proof -
  from assms(1) obtain kvs where r: "report = JObj kvs" by (auto simp: is_dict_iff)
  show ?thesis using assms(2,3)
    by (simp add: r extract_failures_def collect_vitest)
qed

lemma extract_suite_list:
  assumes "suite_list report ss"
  shows "extract_failures report = Inr (suite_failures ss)"
proof -
  from assms obtain kvs where r: "report = JObj kvs" by (auto simp: suite_list_def is_dict_iff)
  show ?thesis using assms
    by (simp add: r suite_list_def extract_failures_def suites_loop_wf)
qed

section \<open>An empty Failure List answers without the service\<close>

lemma analyze_no_failures:
  "extract_failures report = Inr [] \<Longrightarrow>
   analyze_test_failures self svc dumps report = (Inr no_failures_message, [])"
  by (simp add: analyze_test_failures_def)

lemma filter_none: "\<not> list_ex P xs \<Longrightarrow> filter P xs = []"
  by (induction xs) auto

lemma result_list_quiet:
  assumes "result_list report ts" "\<not> list_ex entry_failed ts"
  shows "extract_failures report = Inr []"
proof -
  from assms have "list_all wf_entry ts"
    by (auto simp: result_list_def wf_entry_def list_all_iff list_ex_iff)
  with assms show ?thesis
    by (simp add: result_list_def extract_result_list filter_none)
qed

lemma suite_list_quiet:
  assumes "suite_list report ss" "\<forall>suite \<in> set ss. \<not> list_ex spec_failed (suite_specs suite)"
  shows "extract_failures report = Inr []"
proof -
  have "suite_failures ss = []"
    using assms(2) by (auto simp: suite_failures_def filter_none)
  with assms(1) show ?thesis by (simp add: extract_suite_list)
qed

lemma unrecognized_quiet:
  "contains (ascii ''testResults'') report = Inr False \<Longrightarrow>
   contains (ascii ''suites'') report = Inr False \<Longrightarrow> extract_failures report = Inr []"
  by (simp add: extract_failures_def)

lemma main_no_failures:
  assumes "given (environ_key w) \<noteq> None" "command a = TestAnalysis"
    "given (test_report a) = Some path" "files w path = Inr content"
    "json_loads w content = Inr report" "extract_failures report = Inr []"
  shows "main w a = write_output w a [] no_failures_message"
proof -
  from assms(1) obtain k where "given (environ_key w) = Some k" by auto
  with assms(2-) show ?thesis
    by (simp add: main_def assistant_init_key analyze_no_failures finish_def)
qed

lemma write_output_requests: "requests (write_output w a reqs result) = reqs"
  by (simp add: write_output_def handler_def split: option.splits)

lemma analyze_raises:
  "extract_failures report = Inl e \<Longrightarrow>
   analyze_test_failures self svc dumps report = (Inl e, [])"
  by (simp add: analyze_test_failures_def)

lemma extract_no_container:
  "no_container report \<Longrightarrow>
   extract_failures report
     = Inl (TypeError (ascii (''argument of type '' @ quoted_type report @ '' is not iterable'')))"
  by (cases report) (simp_all add: extract_failures_def)

lemma main_extraction_raises:
  assumes "given (environ_key w) \<noteq> None" "command a = TestAnalysis"
    "given (test_report a) = Some path" "files w path = Inr content"
    "json_loads w content = Inr report" "extract_failures report = Inl e"
  shows "main w a = handler w [] e"
proof -
  from assms(1) obtain k where "given (environ_key w) = Some k" by auto
  with assms(2-) show ?thesis
    by (simp add: main_def assistant_init_key analyze_raises finish_def)
qed

text \<open>
  Claim C1, as the code has it. Whenever the extraction leaves \<open>failures\<close> empty,
  \<open>analyze_test_failures\<close> returns exactly the fixed success string and the trace of
  requests is empty. This is the case for a report whose \<open>testResults\<close> is a list of
  objects none of which has \<open>status == "failed"\<close> (for one, \<open>{"testResults": []}\<close>), for
  a report whose \<open>suites\<close> hold no spec with \<open>ok\<close> false, and for a report in which both
  membership tests of the \<open>if\<close>/\<open>elif\<close> find nothing, as in every object with neither
  key. A \<open>test-analysis\<close> run on such a report sends no request, and prints the success
  string when no \<open>--output\<close> is given. A report on which a membership test or the
  extraction raises gives no list at all: the exception is the result of the operation,
  still without a request, and the run ends in the \<open>except\<close> clause. A report that is
  \<open>null\<close>, a number or a boolean is of this kind, with \<open>TypeError\<close>.
\<close>

theorem no_failures_short_circuit:
  "(extract_failures report = Inr [] \<longrightarrow>
      analyze_test_failures self svc dumps report = (Inr no_failures_message, []))
   \<and> (result_list report ts \<and> \<not> list_ex entry_failed ts \<longrightarrow>
      analyze_test_failures self svc dumps report = (Inr no_failures_message, []))
   \<and> (suite_list report ss \<and> (\<forall>suite \<in> set ss. \<not> list_ex spec_failed (suite_specs suite)) \<longrightarrow>
      analyze_test_failures self svc dumps report = (Inr no_failures_message, []))
   \<and> (contains (ascii ''testResults'') report = Inr False
        \<and> contains (ascii ''suites'') report = Inr False \<longrightarrow>
      analyze_test_failures self svc dumps report = (Inr no_failures_message, []))
   \<and> (given (environ_key w) \<noteq> None \<and> command a = TestAnalysis
        \<and> given (test_report a) = Some path \<and> files w path = Inr content
        \<and> json_loads w content = Inr report \<and> extract_failures report = Inr [] \<longrightarrow>
      requests (main w a) = []
      \<and> (given (output_arg a) = None \<longrightarrow>
           stdout (main w a) = [no_failures_message] \<and> exit_code (main w a) = 0))
   \<and> (extract_failures report = Inl e \<longrightarrow>
      analyze_test_failures self svc dumps report = (Inl e, []))
   \<and> (no_container report \<longrightarrow>
      analyze_test_failures self svc dumps report
        = (Inl (TypeError (ascii (''argument of type '' @ quoted_type report @ '' is not iterable''))), []))
   \<and> (given (environ_key w) \<noteq> None \<and> command a = TestAnalysis
        \<and> given (test_report a) = Some path \<and> files w path = Inr content
        \<and> json_loads w content = Inr report \<and> extract_failures report = Inl e \<longrightarrow>
      main w a = handler w [] e)"
proof -
  have c1: "extract_failures report = Inr [] \<longrightarrow>
      analyze_test_failures self svc dumps report = (Inr no_failures_message, [])"
    by (simp add: analyze_no_failures)
  have c2: "result_list report ts \<and> \<not> list_ex entry_failed ts \<longrightarrow>
      analyze_test_failures self svc dumps report = (Inr no_failures_message, [])"
    using analyze_no_failures result_list_quiet by blast
  have c3: "suite_list report ss \<and> (\<forall>suite \<in> set ss. \<not> list_ex spec_failed (suite_specs suite)) \<longrightarrow>
      analyze_test_failures self svc dumps report = (Inr no_failures_message, [])"
    using analyze_no_failures suite_list_quiet by blast
  have c4: "contains (ascii ''testResults'') report = Inr False
        \<and> contains (ascii ''suites'') report = Inr False \<longrightarrow>
      analyze_test_failures self svc dumps report = (Inr no_failures_message, [])"
    using analyze_no_failures unrecognized_quiet by blast
  have c5: "given (environ_key w) \<noteq> None \<and> command a = TestAnalysis
        \<and> given (test_report a) = Some path \<and> files w path = Inr content
        \<and> json_loads w content = Inr report \<and> extract_failures report = Inr [] \<longrightarrow>
      requests (main w a) = []
      \<and> (given (output_arg a) = None \<longrightarrow>
           stdout (main w a) = [no_failures_message] \<and> exit_code (main w a) = 0)"
  proof
    assume "given (environ_key w) \<noteq> None \<and> command a = TestAnalysis
        \<and> given (test_report a) = Some path \<and> files w path = Inr content
        \<and> json_loads w content = Inr report \<and> extract_failures report = Inr []"
    then have "main w a = write_output w a [] no_failures_message"
      by (simp add: main_no_failures)
    then show "requests (main w a) = []
      \<and> (given (output_arg a) = None \<longrightarrow>
           stdout (main w a) = [no_failures_message] \<and> exit_code (main w a) = 0)"
      by (simp add: write_output_requests) (simp add: write_output_def)
  qed
  have c6: "extract_failures report = Inl e \<longrightarrow>
      analyze_test_failures self svc dumps report = (Inl e, [])"
    by (simp add: analyze_raises)
  have c7: "no_container report \<longrightarrow>
      analyze_test_failures self svc dumps report
        = (Inl (TypeError (ascii (''argument of type '' @ quoted_type report @ '' is not iterable''))), [])"
    using extract_no_container analyze_raises by blast
  have c8: "given (environ_key w) \<noteq> None \<and> command a = TestAnalysis
        \<and> given (test_report a) = Some path \<and> files w path = Inr content
        \<and> json_loads w content = Inr report \<and> extract_failures report = Inl e \<longrightarrow>
      main w a = handler w [] e"
    by (simp add: main_extraction_raises)
  show ?thesis by (intro conjI c1 c2 c3 c4 c5 c6 c7 c8)
qed

theorem no_failures_short_circuit_witness:
  "analyze_test_failures demo_assistant failing_service demo_dumps empty_results
     = (Inr no_failures_message, [])
   \<and> analyze_test_failures demo_assistant failing_service demo_dumps
       (JObj [(ascii ''testResults'', JArr [passed_entry])]) = (Inr no_failures_message, [])
   \<and> analyze_test_failures demo_assistant failing_service demo_dumps passing_suites
       = (Inr no_failures_message, [])
   \<and> analyze_test_failures demo_assistant failing_service demo_dumps (JObj [])
       = (Inr no_failures_message, [])
   \<and> requests (main (keyed_world failing_service)
        ((no_options TestAnalysis)\<lparr>test_report := Some (ascii ''report.json'')\<rparr>)) = []
   \<and> stdout (main (keyed_world failing_service)
        ((no_options TestAnalysis)\<lparr>test_report := Some (ascii ''report.json'')\<rparr>))
       = [no_failures_message]
   \<and> analyze_test_failures demo_assistant failing_service demo_dumps
       (JObj [(ascii ''testResults'', JInt 5)])
       = (Inl (TypeError (ascii (quoted_type (JInt 5) @ '' object is not iterable''))), [])
   \<and> analyze_test_failures demo_assistant failing_service demo_dumps (JInt 5)
       = (Inl (TypeError (ascii (''argument of type '' @ quoted_type (JInt 5) @ '' is not iterable''))), [])
   \<and> main (demo_world (Some (ascii ''sk-test'')) (JInt 5) failing_service)
        ((no_options TestAnalysis)\<lparr>test_report := Some (ascii ''report.json'')\<rparr>)
       = handler (demo_world (Some (ascii ''sk-test'')) (JInt 5) failing_service) []
           (TypeError (ascii (''argument of type '' @ quoted_type (JInt 5) @ '' is not iterable'')))"
proof -
  let ?w = "keyed_world failing_service"
  let ?v = "demo_world (Some (ascii ''sk-test'')) (JInt 5) failing_service"
  let ?a = "(no_options TestAnalysis)\<lparr>test_report := Some (ascii ''report.json'')\<rparr>"
  let ?e = "TypeError (ascii (''argument of type '' @ quoted_type (JInt 5) @ '' is not iterable''))"
  have a: "extract_failures empty_results = Inr []"
    by (simp add: extract_failures_def empty_results_def)
  have b: "result_list (JObj [(ascii ''testResults'', JArr [passed_entry])]) [passed_entry]
      \<and> \<not> list_ex entry_failed [passed_entry]"
    by (simp add: result_list_def entry_failed_def passed_entry_def ascii_def)
  have c: "suite_list passing_suites
        [JObj [(ascii ''file'', JStr (ascii ''e2e.spec.ts'')),
           (ascii ''specs'', JArr [JObj [(ascii ''title'', JStr (ascii ''logs in'')), (ascii ''ok'', JBool True)]])]]
      \<and> (\<forall>suite \<in> set [JObj [(ascii ''file'', JStr (ascii ''e2e.spec.ts'')),
           (ascii ''specs'', JArr [JObj [(ascii ''title'', JStr (ascii ''logs in'')), (ascii ''ok'', JBool True)]])]].
            \<not> list_ex spec_failed (suite_specs suite))"
    by (simp add: suite_list_def passing_suites_def wf_suite_def wf_spec_def spec_failed_def
        suite_specs_def ascii_def)
  have d: "contains (ascii ''testResults'') (JObj []) = Inr False
      \<and> contains (ascii ''suites'') (JObj []) = Inr False"
    by simp
  have e: "given (environ_key ?w) \<noteq> None \<and> command ?a = TestAnalysis
        \<and> given (test_report ?a) = Some (ascii ''report.json'')
        \<and> files ?w (ascii ''report.json'') = Inr (ascii ''report'')
        \<and> json_loads ?w (ascii ''report'') = Inr empty_results
        \<and> extract_failures empty_results = Inr []"
    using a
    by (simp add: keyed_world_def demo_world_def demo_files_def no_options_def ascii_def)
  have f: "given (output_arg ?a) = None" by (simp add: no_options_def)
  have g: "extract_failures (JObj [(ascii ''testResults'', JInt 5)])
      = Inl (TypeError (ascii (quoted_type (JInt 5) @ '' object is not iterable'')))"
    by (simp add: extract_failures_def)
  have h: "no_container (JInt 5)" by simp
  have i: "given (environ_key ?v) \<noteq> None \<and> command ?a = TestAnalysis
        \<and> given (test_report ?a) = Some (ascii ''report.json'')
        \<and> files ?v (ascii ''report.json'') = Inr (ascii ''report'')
        \<and> json_loads ?v (ascii ''report'') = Inr (JInt 5)
        \<and> extract_failures (JInt 5) = Inl ?e"
    by (simp add: demo_world_def demo_files_def no_options_def extract_failures_def ascii_def)
  note t = no_failures_short_circuit [where self = demo_assistant and svc = failing_service
      and dumps = demo_dumps]
  from t [THEN conjunct1, rule_format, OF a]
    t [THEN conjunct2, THEN conjunct1, rule_format, OF b]
    t [THEN conjunct2, THEN conjunct2, THEN conjunct1, rule_format, OF c]
    t [THEN conjunct2, THEN conjunct2, THEN conjunct2, THEN conjunct1, rule_format, OF d]
    t [THEN conjunct2, THEN conjunct2, THEN conjunct2, THEN conjunct2, THEN conjunct1,
       rule_format, OF e]
    f
    t [THEN conjunct2, THEN conjunct2, THEN conjunct2, THEN conjunct2, THEN conjunct2,
       THEN conjunct1, rule_format, OF g]
    t [THEN conjunct2, THEN conjunct2, THEN conjunct2, THEN conjunct2, THEN conjunct2,
       THEN conjunct2, THEN conjunct1, rule_format, OF h]
    t [THEN conjunct2, THEN conjunct2, THEN conjunct2, THEN conjunct2, THEN conjunct2,
       THEN conjunct2, THEN conjunct2, rule_format, OF i]
  show ?thesis by blast
qed

text \<open>
  The claim as written fails for a report in neither shape on which the first
  membership test raises: for the report \<open>null\<close> the operation gives \<open>TypeError\<close>, not the
  success string, and the run ends with exit code 1.
\<close>

theorem no_failures_short_circuit_counterexample:
  "\<not> is_dict JNull
   \<and> analyze_test_failures demo_assistant failing_service demo_dumps JNull
       = (Inl (TypeError (ascii (''argument of type '' @ quoted_type JNull @ '' is not iterable''))), [])
   \<and> analyze_test_failures demo_assistant failing_service demo_dumps JNull
       \<noteq> (Inr no_failures_message, [])
   \<and> exit_code (main (demo_world (Some (ascii ''sk-test'')) JNull failing_service)
        ((no_options TestAnalysis)\<lparr>test_report := Some (ascii ''report.json'')\<rparr>)) = 1
   \<and> stdout (main (demo_world (Some (ascii ''sk-test'')) JNull failing_service)
        ((no_options TestAnalysis)\<lparr>test_report := Some (ascii ''report.json'')\<rparr>)) = []"
  by (simp add: analyze_test_failures_def extract_failures_def main_def assistant_init_def
      demo_world_def demo_files_def no_options_def finish_def handler_def ascii_def)

section \<open>The result-list shape\<close>

text \<open>
  Where every failing entry has usable \<open>assertionResults\<close>, the Failure List holds one
  record per failing entry, in the order of the report.
\<close>

lemma result_list_failures:
  assumes "result_list report ts" and "\<forall>t \<in> set ts. entry_failed t \<longrightarrow> usable_results t"
  shows "extract_failures report = Inr (map entry_record (filter entry_failed ts))"
proof -
  from assms have "list_all wf_entry ts"
    by (auto simp: result_list_def wf_entry_def list_all_iff)
  with assms(1) show ?thesis
    by (simp add: result_list_def extract_result_list)
qed

lemma result_list_failures_example:
  "extract_failures (JObj [(ascii ''testResults'', JArr [passed_entry, failed_entry])])
     = Inr [\<lparr>failure_file = JStr (ascii ''src/sum.test.ts''), failure_test = JStr (ascii ''adds''),
             failure_error = JStr (ascii ''expected 2 to be 3'')\<rparr>]"
proof -
  have "result_list (JObj [(ascii ''testResults'', JArr [passed_entry, failed_entry])])
      [passed_entry, failed_entry]"
    by (simp add: result_list_def passed_entry_def failed_entry_def)
  moreover have "\<forall>t \<in> set [passed_entry, failed_entry]. entry_failed t \<longrightarrow> usable_results t"
    by (simp add: passed_entry_def failed_entry_def entry_failed_def usable_results_def ascii_def)
  ultimately have "extract_failures (JObj [(ascii ''testResults'', JArr [passed_entry, failed_entry])])
      = Inr (map entry_record (filter entry_failed [passed_entry, failed_entry]))"
    by (rule result_list_failures)
  then show ?thesis
    by (simp add: passed_entry_def failed_entry_def entry_failed_def entry_record_def
        first_title_def ascii_def)
qed

text \<open>
  Claim C2. The report \<open>{"testResults": [{"assertionResults": [], "status": "failed",
  "message": "Failed to resolve import", "name": "src/app.test.ts"}]}\<close> is in the
  result-list shape and its one entry fails, yet no Failure List is extracted: the
  default \<open>[{}]\<close> covers a missing \<open>assertionResults\<close> only, and \<open>[0]\<close> on the empty list
  raises \<open>IndexError\<close>.
\<close>

theorem empty_assertion_results_raise:
  "result_list failed_load_report [failed_load_entry]
   \<and> filter entry_failed [failed_load_entry] = [failed_load_entry]
   \<and> extract_failures failed_load_report = Inl (IndexError (ascii ''list index out of range''))
   \<and> analyze_test_failures demo_assistant (stub_service (ascii ''OK'')) demo_dumps failed_load_report
       = (Inl (IndexError (ascii ''list index out of range'')), [])"
  by (simp add: result_list_def failed_load_report_def failed_load_entry_def entry_failed_def
      extract_failures_def vitest_failure_def analyze_test_failures_def ascii_def)

section \<open>The suite/spec shape\<close>

lemma playwright_failure_only_failed:
  assumes "playwright_failure suite t = Inr (Some r)"
  shows "spec_failed t \<and> r = spec_record suite t"
proof -
  from assms obtain kvs where t: "t = JObj kvs"
    by (cases t) (auto simp: playwright_failure_def)
  from assms have ok: "spec_failed t"
    by (auto simp: t playwright_failure_def spec_failed_def split: if_splits option.splits)
  from assms ok obtain sk where s: "suite = JObj sk"
    by (cases suite) (auto simp: t playwright_failure_def spec_failed_def split: option.splits)
  from assms ok have "wf_spec t"
    by (cases "map_of kvs (ascii ''error'')";
        cases "the (map_of kvs (ascii ''error''))")
       (auto simp: t s wf_spec_def playwright_failure_def spec_failed_def)
  with assms ok show ?thesis
    by (simp add: playwright_failure_wf s)
qed

lemma playwright_failure_skips:
  "is_dict t \<Longrightarrow> \<not> spec_failed t \<Longrightarrow> playwright_failure suite t = Inr None"
  by (auto simp: is_dict_iff playwright_failure_def spec_failed_def split: option.splits)

text \<open>
  Claim C9. In the suite/spec shape a spec yields a record only when its \<open>ok\<close> field is
  present and is \<open>false\<close>; a spec object whose \<open>ok\<close> is missing or is anything else is
  passed over. A record takes \<open>file\<close> from the enclosing suite, \<open>test\<close> from the spec's
  \<open>title\<close> and \<open>error\<close> from the \<open>message\<close> of the spec's \<open>error\<close>, which is
  \<open>"Unknown error"\<close> when absent; the Failure List of a report in this shape is made of
  these records, suite by suite and spec by spec.
\<close>

theorem suite_failures_only_when_ok_is_false:
  "(playwright_failure suite t = Inr (Some r) \<longrightarrow> lookup t ''ok'' = Some (JBool False))
   \<and> (is_dict t \<and> lookup t ''ok'' \<noteq> Some (JBool False) \<longrightarrow> playwright_failure suite t = Inr None)
   \<and> (playwright_failure suite t = Inr (Some r) \<longrightarrow>
        failure_file r = (case lookup suite ''file'' of None \<Rightarrow> JNull | Some v \<Rightarrow> v)
        \<and> failure_test r = (case lookup t ''title'' of None \<Rightarrow> JNull | Some v \<Rightarrow> v)
        \<and> failure_error r =
            (case lookup t ''error'' of
               None \<Rightarrow> JStr (ascii ''Unknown error'')
             | Some err \<Rightarrow>
                 (case lookup err ''message'' of
                    None \<Rightarrow> JStr (ascii ''Unknown error'')
                  | Some m \<Rightarrow> m)))
   \<and> (suite_list report ss \<longrightarrow>
        extract_failures report
          = Inr (concat (map (\<lambda>suite. map (spec_record suite) (filter spec_failed (suite_specs suite))) ss)))"
proof (intro conjI impI)
  assume "playwright_failure suite t = Inr (Some r)"
  then show "lookup t ''ok'' = Some (JBool False)"
    using playwright_failure_only_failed by (simp add: spec_failed_def)
next
  assume "is_dict t \<and> lookup t ''ok'' \<noteq> Some (JBool False)"
  then show "playwright_failure suite t = Inr None"
    by (simp add: playwright_failure_skips spec_failed_def)
next
  assume a: "playwright_failure suite t = Inr (Some r)"
  then have r: "r = spec_record suite t" using playwright_failure_only_failed by blast
  show "failure_file r = (case lookup suite ''file'' of None \<Rightarrow> JNull | Some v \<Rightarrow> v)"
    by (simp add: r spec_record_def)
  show "failure_test r = (case lookup t ''title'' of None \<Rightarrow> JNull | Some v \<Rightarrow> v)"
    by (simp add: r spec_record_def)
  show "failure_error r =
            (case lookup t ''error'' of
               None \<Rightarrow> JStr (ascii ''Unknown error'')
             | Some err \<Rightarrow>
                 (case lookup err ''message'' of
                    None \<Rightarrow> JStr (ascii ''Unknown error'')
                  | Some m \<Rightarrow> m))"
    by (simp add: r spec_record_def)
next
  assume "suite_list report ss"
  then show "extract_failures report
          = Inr (concat (map (\<lambda>suite. map (spec_record suite) (filter spec_failed (suite_specs suite))) ss))"
    by (simp add: extract_suite_list suite_failures_def)
qed

theorem suite_failures_only_when_ok_is_false_witness:
  "lookup failing_spec ''ok'' = Some (JBool False)
   \<and> playwright_failure failing_suite (JObj [(ascii ''title'', JStr (ascii ''loads'')), (ascii ''ok'', JInt 0)])
       = Inr None
   \<and> playwright_failure failing_suite (JObj [(ascii ''title'', JStr (ascii ''loads''))]) = Inr None
   \<and> failure_file \<lparr>failure_file = JStr (ascii ''e2e.spec.ts''), failure_test = JStr (ascii ''logs in''),
          failure_error = JStr (ascii ''Unknown error'')\<rparr>
       = (case lookup failing_suite ''file'' of None \<Rightarrow> JNull | Some v \<Rightarrow> v)
   \<and> extract_failures (JObj [(ascii ''suites'', JArr [failing_suite])])
       = Inr [\<lparr>failure_file = JStr (ascii ''e2e.spec.ts''), failure_test = JStr (ascii ''logs in''),
               failure_error = JStr (ascii ''Unknown error'')\<rparr>]"
proof -
  let ?r = "\<lparr>failure_file = JStr (ascii ''e2e.spec.ts''), failure_test = JStr (ascii ''logs in''),
               failure_error = JStr (ascii ''Unknown error'')\<rparr>"
  let ?zero = "JObj [(ascii ''title'', JStr (ascii ''loads'')), (ascii ''ok'', JInt 0)]"
  let ?none = "JObj [(ascii ''title'', JStr (ascii ''loads''))]"
  have a: "playwright_failure failing_suite failing_spec = Inr (Some ?r)"
    by (simp add: playwright_failure_def failing_suite_def failing_spec_def ascii_def)
  have b: "is_dict ?zero \<and> lookup ?zero ''ok'' \<noteq> Some (JBool False)"
    by (simp add: ascii_def)
  have c: "is_dict ?none \<and> lookup ?none ''ok'' \<noteq> Some (JBool False)"
    by (simp add: ascii_def)
  have d: "suite_list (JObj [(ascii ''suites'', JArr [failing_suite])]) [failing_suite]"
    by (simp add: suite_list_def failing_suite_def failing_spec_def wf_suite_def wf_spec_def
        spec_failed_def ascii_def)
  note t = suite_failures_only_when_ok_is_false
  have e: "concat (map (\<lambda>suite. map (spec_record suite) (filter spec_failed (suite_specs suite)))
      [failing_suite]) = [?r]"
    by (simp add: failing_suite_def failing_spec_def suite_specs_def spec_failed_def
        spec_record_def ascii_def)
  from t [where suite = failing_suite and t = failing_spec and r = ?r, THEN conjunct1, rule_format, OF a]
    t [where suite = failing_suite and t = ?zero, THEN conjunct2, THEN conjunct1, rule_format, OF b]
    t [where suite = failing_suite and t = ?none, THEN conjunct2, THEN conjunct1, rule_format, OF c]
    t [where suite = failing_suite and t = failing_spec and r = ?r, THEN conjunct2, THEN conjunct2,
       THEN conjunct1, rule_format, OF a, THEN conjunct1]
    t [where report = "JObj [(ascii ''suites'', JArr [failing_suite])]" and ss = "[failing_suite]",
       THEN conjunct2, THEN conjunct2, THEN conjunct2, rule_format, OF d]
  show ?thesis by (simp only: e simp_thms)
qed

section \<open>Truncation of the embedded fields\<close>

text \<open>
  Claim C3. The codebase context is embedded in the prompt of \<open>generate_spec\<close> cut to at
  most 4000 characters, and the diff in the prompt of \<open>review_pr\<close> cut to at most 8000;
  a diff longer than 8000 characters is cut to exactly its first 8000, and a field
  within its budget is embedded unchanged. The prompt is the content of the one request
  each operation sends.
\<close>

theorem slices_within_budget:
  "length (context_slice c) \<le> 4000
   \<and> length (diff_slice d) \<le> 8000
   \<and> (8000 < length d \<longrightarrow> length (diff_slice d) = 8000 \<and> diff_slice d = take 8000 d)
   \<and> (4000 < length c \<longrightarrow> length (context_slice c) = 4000 \<and> context_slice c = take 4000 c)
   \<and> (length c \<le> 4000 \<longrightarrow> context_slice c = c)
   \<and> (length d \<le> 8000 \<longrightarrow> diff_slice d = d)
   \<and> spec_prompt t b c = spec_intro @ t @ spec_details @ b @ spec_context @ context_slice c @ spec_outro
   \<and> review_prompt d p = review_intro @ p @ review_changes @ diff_slice d @ review_outro
   \<and> map req_content (snd (generate_spec self svc t b c)) = [spec_prompt t b c]
   \<and> map req_content (snd (review_pr self svc d p)) = [review_prompt d p]"
  by (auto simp: context_slice_def diff_slice_def spec_prompt_def review_prompt_def
      generate_spec_def review_pr_def call_service_def split: sum.splits list.splits)

theorem slices_within_budget_witness:
  "length (diff_slice (replicate 8001 (43::nat))) = 8000
   \<and> diff_slice (replicate 8001 (43::nat)) = take 8000 (replicate 8001 43)
   \<and> length (context_slice (replicate 4001 (43::nat))) = 4000
   \<and> context_slice (ascii ''src/'') = ascii ''src/''
   \<and> diff_slice (ascii ''+x'') = ascii ''+x''"
proof -
  have a: "8000 < length (replicate 8001 (43::nat))" by simp
  have b: "4000 < length (replicate 4001 (43::nat))" by simp
  have c: "length (ascii ''src/'') \<le> 4000" by (simp add: ascii_def)
  have d: "length (ascii ''+x'') \<le> 8000" by (simp add: ascii_def)
  note t = slices_within_budget [where self = demo_assistant and svc = failing_service
      and t = "[]" and b = "[]" and p = "[]"]
  from t [where d = "replicate 8001 43" and c = "[]", THEN conjunct2, THEN conjunct2, THEN conjunct1, rule_format, OF a]
    t [where c = "replicate 4001 43" and d = "[]", THEN conjunct2, THEN conjunct2, THEN conjunct2, THEN conjunct1, rule_format, OF b]
    t [where c = "ascii ''src/''" and d = "[]", THEN conjunct2, THEN conjunct2, THEN conjunct2, THEN conjunct2, THEN conjunct1, rule_format, OF c]
    t [where d = "ascii ''+x''" and c = "[]", THEN conjunct2, THEN conjunct2, THEN conjunct2, THEN conjunct2, THEN conjunct2, THEN conjunct1, rule_format, OF d]
  show ?thesis by blast
qed

section \<open>The credential\<close>

lemma ascii_below_256: "c \<in> set (ascii m) \<Longrightarrow> c < 256"
proof -
  have "of_char x < (256::nat)" for x :: char
    by (metis of_char_mod_256 mod_less_divisor zero_less_numeral)
  then show "c \<in> set (ascii m) \<Longrightarrow> c < 256"
    by (auto simp: ascii_def)
qed

lemma marked_line_not_ascii: "cross_mark @ s \<noteq> ascii m"
proof
  assume "cross_mark @ s = ascii m"
  then have "10060 \<in> set (ascii m)"
    by (metis cross_mark_def append_Cons list.set_intros(1))
  then show False using ascii_below_256 by fastforce
qed

lemma key_error_line_eq:
  "cross_mark @ ascii '' Error: '' @ ascii ''CLAUDE_API_KEY environment variable not set''
     = key_error_line"
  by (simp add: key_error_line_def ascii_def)

lemma handler_no_key:
  "handler w [] (ValueError (ascii ''CLAUDE_API_KEY environment variable not set''))
     = \<lparr>stdout = [], stderr = [key_error_line], exit_code = 1, requests = [],
        files_after = files w\<rparr>"
  by (simp add: handler_def key_error_line_eq)

text \<open>
  Claim C5. Whatever the subcommand and its options, a run without an API key (no
  constructor argument, and \<open>CLAUDE_API_KEY\<close> unset or empty) raises the configuration
  error in the constructor, sends no request and ends with exit code 1.
\<close>

theorem missing_key_is_fatal:
  "(given key_arg = None \<and> given env_key = None \<longrightarrow>
      assistant_init key_arg env_key
        = Inl (ValueError (ascii ''CLAUDE_API_KEY environment variable not set'')))
   \<and> (given (environ_key w) = None \<longrightarrow>
        main w a = handler w [] (ValueError (ascii ''CLAUDE_API_KEY environment variable not set''))
        \<and> requests (main w a) = [] \<and> exit_code (main w a) = 1
        \<and> stdout (main w a) = [] \<and> stderr (main w a) = [key_error_line])"
  by (simp add: assistant_init_no_key main_no_key handler_no_key)

theorem missing_key_is_fatal_witness:
  "assistant_init None (Some [])
     = Inl (ValueError (ascii ''CLAUDE_API_KEY environment variable not set''))
   \<and> requests (main (demo_world None empty_results (stub_service (ascii ''OK'')))
        ((no_options PrReview)\<lparr>diff := Some (ascii ''pr.diff''), pr_description := Some (ascii ''Fix'')\<rparr>)) = []
   \<and> exit_code (main (demo_world None empty_results (stub_service (ascii ''OK'')))
        ((no_options PrReview)\<lparr>diff := Some (ascii ''pr.diff''), pr_description := Some (ascii ''Fix'')\<rparr>)) = 1"
proof -
  let ?w = "demo_world None empty_results (stub_service (ascii ''OK''))"
  have a: "given None = None \<and> given (Some []) = None" by simp
  have b: "given (environ_key ?w) = None" by (simp add: demo_world_def)
  from missing_key_is_fatal [where key_arg = None and env_key = "Some []", THEN conjunct1, rule_format, OF a]
    missing_key_is_fatal [where w = ?w, THEN conjunct2, rule_format, OF b]
  show ?thesis by blast
qed

text \<open>
  Claim C10. The constructor runs before any option is looked at: without a key the
  run ends in the configuration error, never in one of the three missing-input
  messages, whatever options are absent.
\<close>

theorem credential_check_comes_first:
  "given (environ_key w) = None \<longrightarrow>
     stderr (main w a) = [key_error_line] \<and> exit_code (main w a) = 1
     \<and> (\<forall>msg. main w a \<noteq> usage_exit w msg)"
proof
  assume k: "given (environ_key w) = None"
  have "main w a \<noteq> usage_exit w msg" for msg
  proof
    assume "main w a = usage_exit w msg"
    then have "stderr (main w a) = stderr (usage_exit w msg)" by simp
    then show False using marked_line_not_ascii
      by (simp add: main_no_key [OF k] handler_no_key usage_exit_def key_error_line_def)
  qed
  then show "stderr (main w a) = [key_error_line] \<and> exit_code (main w a) = 1
     \<and> (\<forall>msg. main w a \<noteq> usage_exit w msg)"
    by (simp add: main_no_key [OF k] handler_no_key)
qed

theorem credential_check_comes_first_witness:
  "stderr (main (demo_world None empty_results failing_service) (no_options Spec)) = [key_error_line]
   \<and> main (demo_world None empty_results failing_service) (no_options Spec)
       \<noteq> usage_exit (demo_world None empty_results failing_service) spec_usage"
proof -
  have "given (environ_key (demo_world None empty_results failing_service)) = None"
    by (simp add: demo_world_def)
  from credential_check_comes_first [rule_format, OF this] show ?thesis by blast
qed

section \<open>Missing inputs\<close>

lemma main_spec_usage:
  assumes "given (environ_key w) \<noteq> None" "command a = Spec"
    "given (issue_title a) = None \<or> given (issue_body a) = None"
  shows "main w a = usage_exit w spec_usage"
proof -
  from assms(1) obtain k where "given (environ_key w) = Some k" by auto
  then show ?thesis using assms(2,3)
    by (auto simp: main_def assistant_init_key split: option.splits)
qed

text \<open>
  Claim C4, as the code has it. A \<open>spec\<close> run whose title or body is absent or empty
  ends with exit code 1, one message on the error stream and no request sent. With an
  API key available the message is the missing-input message of the subcommand; without
  one the run has already ended in the configuration error.
\<close>

theorem spec_requires_title_and_body:
  "(command a = Spec \<and> (given (issue_title a) = None \<or> given (issue_body a) = None) \<longrightarrow>
      exit_code (main w a) = 1 \<and> length (stderr (main w a)) = 1 \<and> stdout (main w a) = []
      \<and> requests (main w a) = [])
   \<and> (command a = Spec \<and> (given (issue_title a) = None \<or> given (issue_body a) = None)
        \<and> given (environ_key w) \<noteq> None \<longrightarrow>
      main w a = usage_exit w spec_usage \<and> stderr (main w a) = [ascii spec_usage])
   \<and> (command a = Spec \<and> (given (issue_title a) = None \<or> given (issue_body a) = None)
        \<and> given (environ_key w) = None \<longrightarrow>
      stderr (main w a) = [key_error_line])"
proof -
  have p1: "exit_code (main w a) = 1 \<and> length (stderr (main w a)) = 1 \<and> stdout (main w a) = []
      \<and> requests (main w a) = []"
    if h: "command a = Spec \<and> (given (issue_title a) = None \<or> given (issue_body a) = None)"
  proof (cases "given (environ_key w)")
    case None
    then show ?thesis by (simp add: main_no_key handler_def)
  next
    case (Some k)
    with h have "main w a = usage_exit w spec_usage" by (simp add: main_spec_usage)
    then show ?thesis by (simp add: usage_exit_def)
  qed
  have p2: "main w a = usage_exit w spec_usage \<and> stderr (main w a) = [ascii spec_usage]"
    if h: "command a = Spec \<and> (given (issue_title a) = None \<or> given (issue_body a) = None)
        \<and> given (environ_key w) \<noteq> None"
  proof -
    from h have "main w a = usage_exit w spec_usage" by (simp add: main_spec_usage)
    then show ?thesis by (simp add: usage_exit_def)
  qed
  have p3: "stderr (main w a) = [key_error_line]" if "given (environ_key w) = None"
    using that by (simp add: main_no_key handler_no_key)
  from p1 p2 p3 show ?thesis by blast
qed

theorem spec_requires_title_and_body_witness:
  "exit_code (main (demo_world (Some (ascii ''sk-test'')) empty_results failing_service)
      ((no_options Spec)\<lparr>issue_title := Some []\<rparr>)) = 1
   \<and> stderr (main (demo_world (Some (ascii ''sk-test'')) empty_results failing_service)
      ((no_options Spec)\<lparr>issue_title := Some []\<rparr>)) = [ascii spec_usage]
   \<and> stderr (main (demo_world None empty_results failing_service) (no_options Spec)) = [key_error_line]"
proof -
  let ?a = "(no_options Spec)\<lparr>issue_title := Some []\<rparr>"
  let ?w = "demo_world (Some (ascii ''sk-test'')) empty_results failing_service"
  let ?v = "demo_world None empty_results failing_service"
  have a: "command ?a = Spec \<and> (given (issue_title ?a) = None \<or> given (issue_body ?a) = None)"
    by (simp add: no_options_def)
  have b: "command ?a = Spec \<and> (given (issue_title ?a) = None \<or> given (issue_body ?a) = None)
      \<and> given (environ_key ?w) \<noteq> None"
    by (simp add: no_options_def demo_world_def ascii_def)
  have c: "command (no_options Spec) = Spec
      \<and> (given (issue_title (no_options Spec)) = None \<or> given (issue_body (no_options Spec)) = None)
      \<and> given (environ_key ?v) = None"
    by (simp add: no_options_def demo_world_def)
  note t = spec_requires_title_and_body
  from t [where a = ?a and w = ?w, THEN conjunct1, rule_format, OF a]
    t [where a = ?a and w = ?w, THEN conjunct2, THEN conjunct1, rule_format, OF b]
    t [where a = "no_options Spec" and w = ?v, THEN conjunct2, THEN conjunct2, rule_format, OF c]
  show ?thesis by blast
qed

text \<open>
  The claim as written fails where the key is missing too: the run reports the
  configuration error, not the missing input.
\<close>

theorem spec_requires_title_and_body_counterexample:
  "command (no_options Spec) = Spec
   \<and> given (issue_title (no_options Spec)) = None
   \<and> stderr (main (demo_world None empty_results failing_service) (no_options Spec))
       = [cross_mark @ ascii '' Error: CLAUDE_API_KEY environment variable not set'']
   \<and> stderr (main (demo_world None empty_results failing_service) (no_options Spec))
       \<noteq> [ascii spec_usage]"
  by (simp add: no_options_def demo_world_def main_def assistant_init_def handler_def
      marked_line_not_ascii key_error_line_eq key_error_line_def)

section \<open>How a run ends\<close>

lemma call_service_requests: "snd (call_service svc req) = [req]"
  by (simp add: call_service_def split: sum.splits list.splits)


lemma requests_finish: "requests (finish w a r) = snd r"
  by (auto simp: finish_def handler_def write_output_def split: prod.splits sum.splits option.splits)




lemma main_with_key:
  assumes "given (environ_key w) \<noteq> None"
  shows "main w a =
     (case missing_input a of
        Some msg \<Rightarrow> usage_exit w msg
      | None \<Rightarrow>
          (case command a of
             Spec \<Rightarrow>
               (case read_context w a of
                  Inl e \<Rightarrow> handler w [] e
                | Inr context \<Rightarrow>
                    finish w a
                      (generate_spec \<lparr>api_key = the (given (environ_key w)),
                                       model = ascii ''claude-3-5-sonnet-20241022''\<rparr>
                         (remote w) (the (given (issue_title a))) (the (given (issue_body a))) context))
           | TestAnalysis \<Rightarrow>
               (case files w (the (given (test_report a))) of
                  Inl e \<Rightarrow> handler w [] e
                | Inr text \<Rightarrow>
                    (case json_loads w text of
                       Inl e \<Rightarrow> handler w [] e
                     | Inr report \<Rightarrow>
                         finish w a
                           (analyze_test_failures \<lparr>api_key = the (given (environ_key w)),
                                       model = ascii ''claude-3-5-sonnet-20241022''\<rparr>
                              (remote w) (json_dumps w) report)))
           | PrReview \<Rightarrow>
               (case files w (the (given (diff a))) of
                  Inl e \<Rightarrow> handler w [] e
                | Inr text \<Rightarrow>
                    finish w a
                      (review_pr \<lparr>api_key = the (given (environ_key w)),
                                       model = ascii ''claude-3-5-sonnet-20241022''\<rparr>
                         (remote w) text (the (given (pr_description a)))))))"
proof -
  from assms obtain k where k: "given (environ_key w) = Some k" by auto
  show ?thesis
    by (cases "command a")
       (auto simp: main_def k assistant_init_key missing_input_def split: option.splits sum.splits)
qed










section \<open>Writing the result\<close>

lemma ascii_no_surrogate: "utf8_write_error (ascii m) = None"
proof -
  have "\<not> is_surrogate c" if "c \<in> set (ascii m)" for c
    using ascii_below_256 [OF that] by (simp add: is_surrogate_def)
  then show ?thesis by (auto simp: utf8_write_error_def list_ex_iff)
qed

lemma call_stub_service: "call_service (stub_service reply) req = (Inr reply, [req])"
  by (simp add: call_service_def stub_service_def)

text \<open>
  Claim C7. A \<open>spec\<close> run with a key, a title and a body, whose context (if any) can be
  read, whose service is stubbed to answer \<open>OK\<close> and whose \<open>--output\<close> path can be opened
  for writing, leaves exactly \<open>OK\<close> in the file at that path, whatever it held before,
  and leaves every other file as it was; standard output holds the confirmation line
  naming the path and nothing else, so the reply itself is not printed.
\<close>

theorem output_option_writes_the_reply:
  "given (environ_key w) \<noteq> None \<and> command a = Spec
   \<and> given (issue_title a) \<noteq> None \<and> given (issue_body a) \<noteq> None
   \<and> read_context w a = Inr context
   \<and> remote w = stub_service (ascii ''OK'')
   \<and> given (output_arg a) = Some path \<and> open_write w path = None
   \<longrightarrow> files_after (main w a) path = Inr (ascii ''OK'')
       \<and> files_after (main w a) = (files w)(path := Inr (ascii ''OK''))
       \<and> stdout (main w a) = [check_mark @ ascii '' Output written to '' @ path]
       \<and> stderr (main w a) = [] \<and> exit_code (main w a) = 0
       \<and> length (requests (main w a)) = 1"
proof
  assume h: "given (environ_key w) \<noteq> None \<and> command a = Spec
   \<and> given (issue_title a) \<noteq> None \<and> given (issue_body a) \<noteq> None
   \<and> read_context w a = Inr context
   \<and> remote w = stub_service (ascii ''OK'')
   \<and> given (output_arg a) = Some path \<and> open_write w path = None"
  then have k: "given (environ_key w) \<noteq> None" by simp
  from h have "missing_input a = None" by (simp add: missing_input_def)
  with h have "main w a =
      write_output w a
        [\<lparr>req_model = ascii ''claude-3-5-sonnet-20241022'', req_max_tokens = 4096,
          req_content = spec_prompt (the (given (issue_title a))) (the (given (issue_body a))) context\<rparr>]
        (ascii ''OK'')"
    by (simp add: main_with_key [OF k] generate_spec_def call_stub_service finish_def)
  with h show "files_after (main w a) path = Inr (ascii ''OK'')
       \<and> files_after (main w a) = (files w)(path := Inr (ascii ''OK''))
       \<and> stdout (main w a) = [check_mark @ ascii '' Output written to '' @ path]
       \<and> stderr (main w a) = [] \<and> exit_code (main w a) = 0
       \<and> length (requests (main w a)) = 1"
    by (simp add: write_output_def ascii_no_surrogate)
qed

theorem output_option_writes_the_reply_witness:
  "files (keyed_world (stub_service (ascii ''OK''))) (ascii ''report.json'') = Inr (ascii ''report'')
   \<and> files_after (main (keyed_world (stub_service (ascii ''OK'')))
        (spec_args\<lparr>output_arg := Some (ascii ''report.json'')\<rparr>)) (ascii ''report.json'')
       = Inr (ascii ''OK'')
   \<and> stdout (main (keyed_world (stub_service (ascii ''OK'')))
        (spec_args\<lparr>output_arg := Some (ascii ''report.json'')\<rparr>))
       = [check_mark @ ascii '' Output written to '' @ ascii ''report.json'']"
proof -
  let ?w = "keyed_world (stub_service (ascii ''OK''))"
  let ?a = "spec_args\<lparr>output_arg := Some (ascii ''report.json'')\<rparr>"
  have h: "given (environ_key ?w) \<noteq> None \<and> command ?a = Spec
     \<and> given (issue_title ?a) \<noteq> None \<and> given (issue_body ?a) \<noteq> None
     \<and> read_context ?w ?a = Inr []
     \<and> remote ?w = stub_service (ascii ''OK'')
     \<and> given (output_arg ?a) = Some (ascii ''report.json'') \<and> open_write ?w (ascii ''report.json'') = None"
    by (simp add: keyed_world_def demo_world_def spec_args_def no_options_def read_context_def
        ascii_def)
  have f: "files ?w (ascii ''report.json'') = Inr (ascii ''report'')"
    by (simp add: keyed_world_def demo_world_def demo_files_def)
  from output_option_writes_the_reply [rule_format, OF h] f show ?thesis by blast
qed

text \<open>
  A reply that cannot be encoded: the file has been opened, and so emptied, when
  \<open>f.write\<close> raises, and the run ends in the \<open>except\<close> clause.
\<close>

lemma unencodable_reply_text:
  "encode_error_text [79, 75, 55296]
     = [39] @ ascii ''utf-8'' @ [39] @ ascii '' codec can't encode character '' @ [39, 92]
       @ ascii ''ud800'' @ [39] @ ascii '' in position 2: surrogates not allowed''"
  by (simp add: encode_error_text_def is_surrogate_def hex4_def hex_digit_def ascii_def Let_def)

lemma unencodable_reply_empties_the_file:
  "files (keyed_world (stub_service [79, 75, 55296])) (ascii ''report.json'') = Inr (ascii ''report'')
   \<and> exit_code (main (keyed_world (stub_service [79, 75, 55296]))
        (spec_args\<lparr>output_arg := Some (ascii ''report.json'')\<rparr>)) = 1
   \<and> stdout (main (keyed_world (stub_service [79, 75, 55296]))
        (spec_args\<lparr>output_arg := Some (ascii ''report.json'')\<rparr>)) = []
   \<and> stderr (main (keyed_world (stub_service [79, 75, 55296]))
        (spec_args\<lparr>output_arg := Some (ascii ''report.json'')\<rparr>))
       = [cross_mark @ ascii '' Error: '' @ encode_error_text [79, 75, 55296]]
   \<and> files_after (main (keyed_world (stub_service [79, 75, 55296]))
        (spec_args\<lparr>output_arg := Some (ascii ''report.json'')\<rparr>)) (ascii ''report.json'') = Inr []"
proof -
  let ?w = "keyed_world (stub_service [79, 75, 55296])"
  let ?a = "spec_args\<lparr>output_arg := Some (ascii ''report.json'')\<rparr>"
  have "main ?w ?a
      = (handler ?w
          [\<lparr>req_model = ascii ''claude-3-5-sonnet-20241022'', req_max_tokens = 4096,
            req_content = spec_prompt (ascii ''Export'') (ascii ''Add CSV export'') []\<rparr>]
          (UnicodeEncodeError (encode_error_text [79, 75, 55296])))
        \<lparr>files_after := (files ?w)(ascii ''report.json'' := Inr [])\<rparr>"
    by (simp add: main_def assistant_init_def spec_args_def no_options_def
        read_context_def generate_spec_def keyed_world_def demo_world_def call_stub_service
        finish_def write_output_def utf8_write_error_def is_surrogate_def ascii_def)
  then show ?thesis
    by (simp add: handler_def) (simp add: keyed_world_def demo_world_def demo_files_def)
qed

section \<open>The request of a review\<close>

lemma requests_handler: "requests (handler w reqs e) = reqs"
  by (simp add: handler_def)

lemma review_requests:
  "snd (review_pr self svc d p)
     = [\<lparr>req_model = model self, req_max_tokens = 2048,
         req_content = review_intro @ p @ review_changes @ take 8000 d @ review_outro\<rparr>]"
  by (simp add: review_pr_def call_service_requests review_prompt_def diff_slice_def)

lemma main_review_requests:
  assumes "command a = PrReview" "environ_key w1 = environ_key w2" "files w1 = files w2"
  shows "requests (main w1 a) = requests (main w2 a)"
proof (cases "given (environ_key w1) = None")
  case True
  with assms(2) show ?thesis by (simp add: main_no_key requests_handler)
next
  case False
  with assms(2) have k: "given (environ_key w2) \<noteq> None" by simp
  show ?thesis
  proof (cases "missing_input a")
    case (Some msg)
    then show ?thesis by (simp add: main_with_key [OF False] main_with_key [OF k] usage_exit_def)
  next
    case None
    then show ?thesis
      using assms
      by (cases "files w2 (the (given (diff a)))")
         (simp_all add: main_with_key [OF False] main_with_key [OF k] requests_handler
            requests_finish review_requests)
  qed
qed

text \<open>
  Claim C8. The request \<open>review_pr\<close> sends is a function of the diff and the description
  alone: the fixed template around the description and the first 8000 characters of
  the diff. It is the same whatever the service answers, and two runs of \<open>pr-review\<close>
  with the same options, key and files send the same requests even when the service
  differs.
\<close>

theorem review_request_is_deterministic:
  "snd (review_pr self svc1 d p)
     = [\<lparr>req_model = model self, req_max_tokens = 2048,
         req_content = review_intro @ p @ review_changes @ take 8000 d @ review_outro\<rparr>]
   \<and> snd (review_pr self svc1 d p) = snd (review_pr self svc2 d p)
   \<and> (command a = PrReview \<and> environ_key w1 = environ_key w2 \<and> files w1 = files w2 \<longrightarrow>
        requests (main w1 a) = requests (main w2 a))"
  using main_review_requests [of a w1 w2] by (simp add: review_requests)

theorem review_request_is_deterministic_witness:
  "requests (main (keyed_world (stub_service (ascii ''LGTM''))) review_args)
     = requests (main (keyed_world failing_service) review_args)"
proof -
  have "command review_args = PrReview
      \<and> environ_key (keyed_world (stub_service (ascii ''LGTM''))) = environ_key (keyed_world failing_service)
      \<and> files (keyed_world (stub_service (ascii ''LGTM''))) = files (keyed_world failing_service)"
    by (simp add: review_args_def no_options_def keyed_world_def demo_world_def)
  from review_request_is_deterministic [THEN conjunct2, THEN conjunct2, rule_format, OF this]
  show ?thesis .
qed

end
